theory Spec2Isabelle
  imports Main "HOL-Library.Sublist"
begin

section \<open>JavaScript values and exceptions\<close>

text \<open>
  A property of a parsed JSON payload is absent (reads as \<open>undefined\<close>), \<open>null\<close>, or
  holds a value. Reading a property of \<open>undefined\<close> or \<open>null\<close> throws a TypeError;
  the argument of \<open>TypeError\<close> is the name of the property that was read.
\<close>

datatype 'a js = Undefined | Null | Val 'a

datatype error =
    Error string       \<comment> \<open>\<open>new Error(message)\<close>\<close>
  | TypeError string   \<comment> \<open>property read on \<open>undefined\<close> or \<open>null\<close>\<close>
  | APIError string    \<comment> \<open>rejection of \<open>client.chat.completions.create\<close>\<close>
  | SystemError string \<comment> \<open>rejection of an \<open>fs/promises\<close> call\<close>

text \<open>Interpolation in a template literal, and a top-level argument of \<open>console.log\<close>.\<close>

fun show_js :: "string js \<Rightarrow> string" where
  "show_js Undefined = ''undefined''"
| "show_js Null = ''null''"
| "show_js (Val s) = s"

text \<open>\<open>xs[0]\<close>: throws when \<open>xs\<close> is not there, is \<open>undefined\<close> on an empty array.\<close>

fun index0 :: "'a list js \<Rightarrow> error + 'a js" where
  "index0 Undefined = Inl (TypeError ''0'')"
| "index0 Null = Inl (TypeError ''0'')"
| "index0 (Val '''') = Inr Undefined"
| "index0 (Val (x # xs)) = Inr (Val x)"

text \<open>\<open>o.p\<close> and \<open>o?.p\<close> for a property \<open>p\<close> that is itself optional.\<close>

fun read_prop :: "string \<Rightarrow> ('a \<Rightarrow> 'b js) \<Rightarrow> 'a js \<Rightarrow> error + 'b js" where
  "read_prop name get Undefined = Inl (TypeError name)"
| "read_prop name get Null = Inl (TypeError name)"
| "read_prop name get (Val obj) = Inr (get obj)"

fun opt_prop :: "('a \<Rightarrow> 'b js) \<Rightarrow> 'a js \<Rightarrow> 'b js" where
  "opt_prop get Undefined = Undefined"
| "opt_prop get Null = Undefined"
| "opt_prop get (Val obj) = get obj"

text \<open>
  \<open>String.prototype.toLocaleLowerCase\<close> on ASCII text in a locale without special
  casing rules: the letters \<open>A\<close> to \<open>Z\<close> are mapped to \<open>a\<close> to \<open>z\<close>.
\<close>

definition lower_char :: "char \<Rightarrow> char" where
  "lower_char c =
     (let n = (of_char c :: nat) in if 65 \<le> n \<and> n \<le> 90 then char_of (n + 32) else c)"

definition toLocaleLowerCase :: "string \<Rightarrow> string" where
  "toLocaleLowerCase s = map lower_char s"

text \<open>Truthiness of \<open>process.env.NAME\<close>: a string, or \<open>undefined\<close> when not set.\<close>

fun falsy :: "string option \<Rightarrow> bool" where
  "falsy None = True"
| "falsy (Some s) = (s = [])"

section \<open>Data of the completion API\<close>

record tool_call =
  tc_id :: string
  tc_name :: string
  tc_arguments :: string

text \<open>The message of a completion response, as received.\<close>

record message =
  msg_role :: "string js"
  msg_content :: "string js"
  msg_refusal :: "string js"
  msg_tool_calls :: "tool_call list js"

record choice =
  message :: "message js"
  finish_reason :: "string js"

record response =
  choices :: "choice list js"

text \<open>An element of the history (\<open>ChatCompletionMessageParam\<close>).\<close>

record turn =
  role :: "string js"
  content :: "string js"
  tool_calls :: "tool_call list js"
  tool_call_id :: "string js"

record request =
  model :: string
  messages :: "turn list"

text \<open>
  \<open>client.chat.completions.create\<close> belongs to the SDK: it is a parameter, the
  outcome of the remote call for each request.
\<close>

type_synonym client = "request \<Rightarrow> error + response"

section \<open>Process state\<close>

datatype diag =
    Console string error  \<comment> \<open>\<open>console.error(label, error)\<close>\<close>
  | Uncaught error        \<comment> \<open>the runtime's report of an exception nobody caught\<close>

record state =
  chatMemory :: "turn list"
  requests :: "request list"  \<comment> \<open>the calls issued to the client, oldest first\<close>
  stdout :: "string list"
  stderr :: "diag list"

datatype promise = Pending | Fulfilled | Rejected error

datatype exit = Running | Exit nat

section \<open>The chat bot\<close>

definition system_prompt :: string where
  "system_prompt = ''You are my personal AI assistant. Your role is to provide clear, accurate, and well-structured responses to my queries. Always explain concepts in a simple way, offer practical examples when needed, and ensure your answers are relevant to my context as a software developer. If code is requested, provide clean, working, and well-commented code. Stay professional, concise, and supportive.''"

text \<open>An object literal with the two keys \<open>role\<close> and \<open>content\<close>.\<close>

definition role_content :: "string js \<Rightarrow> string js \<Rightarrow> turn" where
  "role_content r c = \<lparr>role = r, content = c, tool_calls = Undefined, tool_call_id = Undefined\<rparr>"

definition initial :: state where
  "initial = \<lparr>chatMemory = [role_content (Val ''system'') (Val system_prompt)],
              requests = [], stdout = [], stderr = []\<rparr>"

definition push :: "turn \<Rightarrow> state \<Rightarrow> state" where
  "push t st = st\<lparr>chatMemory := chatMemory st @ [t]\<rparr>"

definition console_log :: "string \<Rightarrow> state \<Rightarrow> state" where
  "console_log s st = st\<lparr>stdout := stdout st @ [s]\<rparr>"

definition console_error :: "string \<Rightarrow> error \<Rightarrow> state \<Rightarrow> state" where
  "console_error label e st = st\<lparr>stderr := stderr st @ [Console label e]\<rparr>"

definition chat_request :: "state \<Rightarrow> request" where
  "chat_request st = \<lparr>model = ''openai/gpt-oss-20b'', messages = chatMemory st\<rparr>"

definition called :: "request \<Rightarrow> state \<Rightarrow> state" where
  "called req st = st\<lparr>requests := requests st @ [req]\<rparr>"

definition chatCompletion :: "client \<Rightarrow> state \<Rightarrow> (error + unit) \<times> state" where
  "chatCompletion create st =
     (let st1 = called (chat_request st) st in
      case create (chat_request st) of
        Inl e \<Rightarrow> (Inl e, st1)
      | Inr response \<Rightarrow>
          (case index0 (choices response) of
             Inl e \<Rightarrow> (Inl e, st1)
           | Inr c \<Rightarrow>
               (case read_prop ''message'' message c of
                  Inl e \<Rightarrow> (Inl e, st1)
                | Inr responseMessage \<Rightarrow>
                    (case read_prop ''role'' msg_role responseMessage of
                       Inl e \<Rightarrow> (Inl e, st1)
                     | Inr r \<Rightarrow>
                         (case read_prop ''content'' msg_content responseMessage of
                            Inl e \<Rightarrow> (Inl e, st1)
                          | Inr c \<Rightarrow>
                              (Inr (),
                               console_log (''Assistant: '' @ show_js r @ '', '' @ show_js c)
                                 (push (role_content r c) st1)))))))"

text \<open>
  The loop of \<open>main\<close> on the lines typed so far. When they are used up the loop is
  at its head, about to read the next line: the promise of \<open>main\<close> is pending.
  A line is what \<open>input\<close> returns, always a string; an interrupt ends the process
  inside the prompt library and is not a line.
\<close>

fun main_loop :: "client \<Rightarrow> string list \<Rightarrow> state \<Rightarrow> promise \<times> state" where
  "main_loop create [] st = (Pending, st)"
| "main_loop create (userInput # rest) st =
     (let st0 = console_log ''Enter your message : '' st in
      if toLocaleLowerCase userInput = ''exit''
      then (Fulfilled, console_log ''Exiting chat bot...'' st0)
      else
        (case chatCompletion create (push (role_content (Val ''user'') (Val userInput)) st0) of
           (Inl e, st') \<Rightarrow> (Rejected e, st')
         | (Inr u, st') \<Rightarrow> main_loop create rest st'))"

definition main :: "client \<Rightarrow> string list \<Rightarrow> state \<Rightarrow> promise \<times> state" where
  "main create inputs st =
     main_loop create inputs
       (console_log ''Chat bot started. Type 'exit' to end the conversation.\<newline>'' st)"

text \<open>
  The module from top to bottom: the check of the key, the history, \<open>main\<close> and its
  \<open>catch\<close>. An exception thrown by the module itself is reported by the runtime,
  which ends the process with status 1.
\<close>

definition chat_program :: "string option \<Rightarrow> client \<Rightarrow> string list \<Rightarrow> exit \<times> state" where
  "chat_program GROQ_API_KEY create inputs =
     (if falsy GROQ_API_KEY
      then (Exit 1,
            \<lparr>chatMemory = [], requests = [], stdout = [],
             stderr = [Uncaught (Error ''GROQ_API_KEY is not defined in environment variables'')]\<rparr>)
      else
        (case main create inputs initial of
           (Pending, st) \<Rightarrow> (Running, st)
         | (Fulfilled, st) \<Rightarrow> (Exit 0, st)
         | (Rejected e, st) \<Rightarrow> (Exit 1, console_error ''Unexpected error in chat bot:'' e st)))"

section \<open>The basics program\<close>

text \<open>
  The file system, the working directory and the clock are outside the program:
  \<open>mkdir\<close> and \<open>writeFile\<close> give the failure of the call, if any, and \<open>now\<close> is
  \<open>Date.now()\<close> as the template literal prints it. A written file is recorded with
  the object that was serialised into it.
\<close>

record fsys =
  cwd :: string
  mkdir :: "string \<Rightarrow> error option"
  writeFile :: "string \<Rightarrow> response \<Rightarrow> error option"
  now :: string

record bstate =
  b_requests :: "request list"
  b_files :: "(string \<times> response) list"
  b_stdout :: "string list"
  b_stderr :: "diag list"

definition b_initial :: bstate where
  "b_initial = \<lparr>b_requests = [], b_files = [], b_stdout = [], b_stderr = []\<rparr>"

definition b_log :: "string \<Rightarrow> bstate \<Rightarrow> bstate" where
  "b_log s st = st\<lparr>b_stdout := b_stdout st @ [s]\<rparr>"

definition b_error :: "string \<Rightarrow> error \<Rightarrow> bstate \<Rightarrow> bstate" where
  "b_error label e st = st\<lparr>b_stderr := b_stderr st @ [Console label e]\<rparr>"

text \<open>\<open>path.join\<close> of two segments that need no normalisation.\<close>

definition path_join :: "string \<Rightarrow> string \<Rightarrow> string" where
  "path_join a b = a @ ''/'' @ b"

definition saveResponseToFile ::
  "fsys \<Rightarrow> response \<Rightarrow> string \<Rightarrow> bstate \<Rightarrow> (error + string) \<times> bstate" where
  "saveResponseToFile fs data filename st =
     (let dataDir = path_join (cwd fs) ''data'' in
      case mkdir fs dataDir of
        Some e \<Rightarrow> (Inl e, b_error ''Error saving file:'' e st)
      | None \<Rightarrow>
          (let filePath = path_join dataDir filename in
           case writeFile fs filePath data of
             Some e \<Rightarrow> (Inl e, b_error ''Error saving file:'' e st)
           | None \<Rightarrow>
               (Inr filePath,
                b_log (''Response saved to: '' @ filePath)
                  (st\<lparr>b_files := b_files st @ [(filePath, data)]\<rparr>))))"

definition basics_request :: request where
  "basics_request =
     \<lparr>model = ''openai/gpt-oss-20b'',
      messages =
        [role_content (Val ''system'') (Val ''You are a helpful coding assistant.''),
         role_content (Val ''user'') (Val ''Hello, how are you?''),
         role_content (Val ''assistant'') (Val ''I'm good! How can I help you today?''),
         role_content (Val ''user'')
           (Val ''Kindly provide me with the JavaScript code solution for the Target Sum problem'')]\<rparr>"

text \<open>The body of the \<open>try\<close> block of \<open>main\<close>.\<close>

definition main_try :: "client \<Rightarrow> fsys \<Rightarrow> bstate \<Rightarrow> (error + unit) \<times> bstate" where
  "main_try create fs st =
     (let st1 = st\<lparr>b_requests := b_requests st @ [basics_request]\<rparr> in
      case create basics_request of
        Inl e \<Rightarrow> (Inl e, st1)
      | Inr response \<Rightarrow>
          (let filename = ''response_'' @ now fs @ ''.json'' in
           case saveResponseToFile fs response filename st1 of
             (Inl e, st2) \<Rightarrow> (Inl e, st2)
           | (Inr filePath, st2) \<Rightarrow>
               (case index0 (choices response) of
                  Inl e \<Rightarrow> (Inl e, st2)
                | Inr c \<Rightarrow>
                    (Inr (),
                     b_log (''Full response saved to: '' @ filePath)
                       (b_log (''AI Response: '' @ show_js (opt_prop msg_content (opt_prop message c)))
                          st2)))))"

text \<open>\<open>main\<close>: the \<open>catch\<close> clause reports the error and returns.\<close>

definition basics_main :: "client \<Rightarrow> fsys \<Rightarrow> bstate \<Rightarrow> (error + unit) \<times> bstate" where
  "basics_main create fs st =
     (case main_try create fs st of
        (Inl e, st') \<Rightarrow> (Inr (), b_error ''Error in main function:'' e st')
      | (Inr u, st') \<Rightarrow> (Inr (), st'))"

definition basics_program :: "string option \<Rightarrow> client \<Rightarrow> fsys \<Rightarrow> exit \<times> bstate" where
  "basics_program GROQ_API_KEY create fs =
     (if falsy GROQ_API_KEY
      then (Exit 1,
            b_initial\<lparr>b_stderr :=
              [Uncaught (Error ''GROQ_API_KEY is not defined in environment variables'')]\<rparr>)
      else
        (case basics_main create fs b_initial of
           (Inl e, st) \<Rightarrow> (Exit 1, b_error ''Unhandled error in execution:'' e st)
         | (Inr u, st) \<Rightarrow> (Exit 0, st)))"

section \<open>Notions used to state the properties\<close>

text \<open>
  The message that \<open>chatCompletion\<close> reads out of a response:
  \<open>response.choices[0].message\<close>, then a property of it.
\<close>

definition response_message :: "response \<Rightarrow> error + message" where
  "response_message response =
     (case index0 (choices response) of
        Inl e \<Rightarrow> Inl e
      | Inr c \<Rightarrow>
          (case read_prop ''message'' message c of
             Inl e \<Rightarrow> Inl e
           | Inr Undefined \<Rightarrow> Inl (TypeError ''role'')
           | Inr Null \<Rightarrow> Inl (TypeError ''role'')
           | Inr (Val m) \<Rightarrow> Inr m))"

text \<open>A successful completion: a response that carries an assistant message.\<close>

definition assistant_reply :: "response \<Rightarrow> bool" where
  "assistant_reply response =
     (case response_message response of
        Inl e \<Rightarrow> False
      | Inr m \<Rightarrow> msg_role m = Val ''assistant'')"

text \<open>The roles of \<open>n\<close> exchanges: user, assistant, user, assistant, ...\<close>

fun alternation :: "nat \<Rightarrow> string js list" where
  "alternation 0 = []"
| "alternation (Suc n) = Val ''user'' # Val ''assistant'' # alternation n"

text \<open>
  The specification's malformed payload, one that misses an expected field: the
  array of choices, its first element, the message of that element, or the role of
  the message.
\<close>

fun malformed_payload :: "response \<Rightarrow> bool" where
  "malformed_payload response =
     (case choices response of
        Val (c # cs) \<Rightarrow>
          (case message c of
             Val m \<Rightarrow> (case msg_role m of Val r \<Rightarrow> False | _ \<Rightarrow> True)
           | _ \<Rightarrow> True)
      | _ \<Rightarrow> True)"

text \<open>The part of it that the code notices: no first choice, or no message in it.\<close>

fun no_message :: "response \<Rightarrow> bool" where
  "no_message response =
     (case choices response of
        Val (c # cs) \<Rightarrow> (case message c of Val m \<Rightarrow> False | _ \<Rightarrow> True)
      | _ \<Rightarrow> True)"

section \<open>Scenarios\<close>

definition replying :: "response \<Rightarrow> client" where
  "replying response = (\<lambda>req. Inr response)"

definition failing :: "error \<Rightarrow> client" where
  "failing e = (\<lambda>req. Inl e)"

definition with_message :: "message \<Rightarrow> response" where
  "with_message m = \<lparr>choices = Val [\<lparr>message = Val m, finish_reason = Val ''stop''\<rparr>]\<rparr>"

definition pong :: message where
  "pong = \<lparr>msg_role = Val ''assistant'', msg_content = Val ''pong'',
           msg_refusal = Null, msg_tool_calls = Undefined\<rparr>"

definition weather_call :: message where
  "weather_call =
     \<lparr>msg_role = Val ''assistant'', msg_content = Null, msg_refusal = Null,
      msg_tool_calls =
        Val [\<lparr>tc_id = ''call_1'', tc_name = ''get_weather'', tc_arguments = ''{}''\<rparr>]\<rparr>"

definition bare :: message where
  "bare = \<lparr>msg_role = Undefined, msg_content = Undefined,
           msg_refusal = Undefined, msg_tool_calls = Undefined\<rparr>"

text \<open>A client that reads the whole request: it answers with the roles it was sent.\<close>

definition listing :: client where
  "listing req =
     Inr (with_message
            \<lparr>msg_role = Val ''assistant'',
             msg_content = Val (concat (map (\<lambda>t. show_js (role t) @ '' '') (messages req))),
             msg_refusal = Null, msg_tool_calls = Undefined\<rparr>)"

definition no_choices :: response where
  "no_choices = \<lparr>choices = Val []\<rparr>"

definition disk :: fsys where
  "disk = \<lparr>cwd = ''/app'', mkdir = (\<lambda>p. None), writeFile = (\<lambda>p d. None), now = ''1700000000000''\<rparr>"

definition disk_full :: fsys where
  "disk_full = disk\<lparr>writeFile := (\<lambda>p d. Some (SystemError ''ENOSPC''))\<rparr>"

section \<open>Properties of the chat bot\<close>

subsection \<open>One completion\<close>

lemma chatMemory_ops [simp]:
  "chatMemory (console_log s st) = chatMemory st"
  "chatMemory (console_error l e st) = chatMemory st"
  "chatMemory (called req st) = chatMemory st"
  "chatMemory (push t st) = chatMemory st @ [t]"
  by (simp_all add: console_log_def console_error_def called_def push_def)

lemma requests_ops [simp]:
  "requests (console_log s st) = requests st"
  "requests (console_error l e st) = requests st"
  "requests (called req st) = requests st @ [req]"
  "requests (push t st) = requests st"
  by (simp_all add: console_log_def console_error_def called_def push_def)

lemma stderr_ops [simp]:
  "stderr (console_log s st) = stderr st"
  "stderr (console_error l e st) = stderr st @ [Console l e]"
  "stderr (called req st) = stderr st"
  "stderr (push t st) = stderr st"
  by (simp_all add: console_log_def console_error_def called_def push_def)

lemma messages_chat_request [simp]: "messages (chat_request st) = chatMemory st"
  by (simp add: chat_request_def)

lemma chatCompletion_eq:
  "chatCompletion create st =
     (case create (chat_request st) of
        Inl e \<Rightarrow> (Inl e, called (chat_request st) st)
      | Inr response \<Rightarrow>
          (case response_message response of
             Inl e \<Rightarrow> (Inl e, called (chat_request st) st)
           | Inr m \<Rightarrow>
               (Inr (),
                console_log (''Assistant: '' @ show_js (msg_role m) @ '', '' @ show_js (msg_content m))
                  (push (role_content (msg_role m) (msg_content m))
                     (called (chat_request st) st)))))"
  by (simp add: chatCompletion_def response_message_def Let_def split: sum.splits js.splits)

lemma response_message_no_message:
  "(\<exists>m. response_message r = Inr m) = (\<not> no_message r)"
  by (cases "choices r"; simp add: response_message_def split: list.splits js.splits sum.splits)

lemma index0_Inl: "index0 xs = Inl e \<Longrightarrow> e = TypeError ''0''"
  by (erule index0.elims) simp_all

lemma read_prop_Inl: "read_prop name get obj = Inl e \<Longrightarrow> e = TypeError name"
  by (cases obj) simp_all

lemma response_message_TypeError:
  "response_message r = Inl e \<Longrightarrow> \<exists>p. e = TypeError p"
  by (auto simp add: response_message_def split: js.splits sum.splits
      dest: index0_Inl read_prop_Inl)

lemma chatCompletion_requests:
  "requests (snd (chatCompletion create st)) = requests st @ [chat_request st]"
  by (simp add: chatCompletion_eq split: sum.splits)

lemma chatCompletion_Inl:
  "chatCompletion create st = (Inl e, st') \<Longrightarrow> st' = called (chat_request st) st"
  by (auto simp add: chatCompletion_eq split: sum.splits)

lemma chatCompletion_Inr:
  "chatCompletion create st = (Inr u, st') \<Longrightarrow>
     \<exists>response m. create (chat_request st) = Inr response \<and> response_message response = Inr m \<and>
       chatMemory st' = chatMemory st @ [role_content (msg_role m) (msg_content m)] \<and>
       requests st' = requests st @ [chat_request st] \<and> stderr st' = stderr st"
  by (auto simp add: chatCompletion_eq split: sum.splits)

lemma chatCompletion_memory:
  "chatMemory (snd (chatCompletion create st)) = chatMemory st \<or>
   (\<exists>t. chatMemory (snd (chatCompletion create st)) = chatMemory st @ [t])"
  by (simp add: chatCompletion_eq split: sum.splits)

subsection \<open>The loop\<close>

lemma main_loop_prefix:
  "prefix (chatMemory st) (chatMemory (snd (main_loop create inputs st)))"
proof (induction inputs arbitrary: st)
  case Nil
  show ?case by simp
next
  case (Cons userInput rest)
  let ?s = "push (role_content (Val ''user'') (Val userInput)) (console_log ''Enter your message : '' st)"
  show ?case
  proof (cases "toLocaleLowerCase userInput = ''exit''")
    case True
    then show ?thesis by simp
  next
    case False
    obtain res st' where c: "chatCompletion create ?s = (res, st')"
      by (cases "chatCompletion create ?s")
    show ?thesis
    proof (cases res)
      case (Inl e)
      with c have "st' = called (chat_request ?s) ?s" by (simp add: chatCompletion_Inl)
      with False c Inl show ?thesis by simp
    next
      case (Inr u)
      with c obtain t where "chatMemory st' = chatMemory ?s @ [t]"
        using chatCompletion_Inr by blast
      then have "prefix (chatMemory st) (chatMemory st')" by simp
      moreover have "prefix (chatMemory st') (chatMemory (snd (main_loop create rest st')))"
        by (rule Cons.IH)
      ultimately show ?thesis using False c Inr by (auto intro: prefix_order.trans)
    qed
  qed
qed

lemma main_loop_append:
  "main_loop create (xs @ ys) st =
     (case main_loop create xs st of (Pending, st') \<Rightarrow> main_loop create ys st' | r \<Rightarrow> r)"
proof (induction xs arbitrary: st)
  case Nil
  show ?case by simp
next
  case (Cons x xs)
  show ?case
    by (simp add: Cons.IH Let_def split: prod.splits sum.splits promise.splits)
qed


lemma main_loop_requests:
  "\<exists>news. requests (snd (main_loop create inputs st)) = requests st @ news \<and>
     (\<forall>i<length news. news ! i =
        \<lparr>model = ''openai/gpt-oss-20b'',
         messages = take (length (chatMemory st) + 2 * i + 1)
                      (chatMemory (snd (main_loop create inputs st)))\<rparr>)"
proof (induction inputs arbitrary: st)
  case Nil
  show ?case by simp
next
  case (Cons userInput rest)
  let ?s = "push (role_content (Val ''user'') (Val userInput)) (console_log ''Enter your message : '' st)"
  have req: "chat_request ?s = \<lparr>model = ''openai/gpt-oss-20b'', messages = chatMemory st @ [role_content (Val ''user'') (Val userInput)]\<rparr>"
    by (simp add: chat_request_def)
  show ?case
  proof (cases "toLocaleLowerCase userInput = ''exit''")
    case True
    then show ?thesis by simp
  next
    case False
    obtain res st' where c: "chatCompletion create ?s = (res, st')"
      by (cases "chatCompletion create ?s")
    show ?thesis
    proof (cases res)
      case (Inl e)
      with c have st': "st' = called (chat_request ?s) ?s" by (simp add: chatCompletion_Inl)
      have fin: "main_loop create (userInput # rest) st = (Rejected e, st')"
        using False c Inl by simp
      show ?thesis
        unfolding fin by (rule exI [of _ "[chat_request ?s]"]) (simp add: st' req)
    next
      case (Inr u)
      let ?fin = "snd (main_loop create rest st')"
      have fin: "snd (main_loop create (userInput # rest) st) = ?fin"
        using False c Inr by simp
      from c Inr obtain t where mem: "chatMemory st' = chatMemory ?s @ [t]"
        and rq: "requests st' = requests ?s @ [chat_request ?s]"
        using chatCompletion_Inr by blast
      from Cons.IH [of st'] obtain news where
        n1: "requests ?fin = requests st' @ news" and
        n2: "\<forall>i<length news. news ! i =
              \<lparr>model = ''openai/gpt-oss-20b'',
               messages = take (length (chatMemory st') + 2 * i + 1) (chatMemory ?fin)\<rparr>"
        by blast
      have "prefix (chatMemory st') (chatMemory ?fin)" by (rule main_loop_prefix)
      then obtain zs where zs: "chatMemory ?fin = chatMemory st' @ zs"
        by (auto simp: prefix_def)
      have first: "take (length (chatMemory st) + 1) (chatMemory ?fin) = chatMemory st @ [role_content (Val ''user'') (Val userInput)]"
        by (simp add: zs mem)
      have "\<forall>i<length (chat_request ?s # news). (chat_request ?s # news) ! i =
              \<lparr>model = ''openai/gpt-oss-20b'',
               messages = take (length (chatMemory st) + 2 * i + 1) (chatMemory ?fin)\<rparr>"
      proof (intro allI impI)
        fix i assume i: "i < length (chat_request ?s # news)"
        show "(chat_request ?s # news) ! i =
              \<lparr>model = ''openai/gpt-oss-20b'',
               messages = take (length (chatMemory st) + 2 * i + 1) (chatMemory ?fin)\<rparr>"
        proof (cases i)
          case 0
          then show ?thesis using first req by simp
        next
          case (Suc j)
          with i have "j < length news" by simp
          with n2 have "news ! j = \<lparr>model = ''openai/gpt-oss-20b'',
               messages = take (length (chatMemory st') + 2 * j + 1) (chatMemory ?fin)\<rparr>" by blast
          moreover have "length (chatMemory st') + 2 * j + 1 = length (chatMemory st) + 2 * i + 1"
            using Suc by (simp add: mem)
          ultimately show ?thesis using Suc by simp
        qed
      qed
      moreover have "requests ?fin = requests st @ (chat_request ?s # news)"
        by (simp add: n1 rq)
      ultimately show ?thesis unfolding fin by blast
    qed
  qed
qed


lemma main_loop_requests_prefix:
  "prefix (requests st) (requests (snd (main_loop create inputs st)))"
  using main_loop_requests [of create inputs st] by (auto simp: prefix_def)

lemma length_alternation [simp]: "length (alternation n) = 2 * n"
  by (induction n) simp_all

lemma main_loop_alternates:
  assumes "\<forall>u\<in>set inputs. toLocaleLowerCase u \<noteq> ''exit''"
    and "\<forall>req. \<exists>r. create req = Inr r \<and> assistant_reply r"
  shows "\<exists>st' zs. main_loop create inputs st = (Pending, st') \<and>
           chatMemory st' = chatMemory st @ zs \<and> map role zs = alternation (length inputs)"
  using assms(1)
proof (induction inputs arbitrary: st)
  case Nil
  show ?case by simp
next
  case (Cons userInput rest)
  let ?s = "push (role_content (Val ''user'') (Val userInput)) (console_log ''Enter your message : '' st)"
  from assms(2) obtain r where r: "create (chat_request ?s) = Inr r" "assistant_reply r"
    by blast
  then obtain m where m: "response_message r = Inr m" "msg_role m = Val ''assistant''"
    by (auto simp: assistant_reply_def split: sum.splits)
  let ?st' = "console_log (''Assistant: '' @ show_js (msg_role m) @ '', '' @ show_js (msg_content m))
                  (push (role_content (msg_role m) (msg_content m)) (called (chat_request ?s) ?s))"
  have c: "chatCompletion create ?s = (Inr (), ?st')"
    by (simp add: chatCompletion_eq r m)
  from Cons.prems have ne: "toLocaleLowerCase userInput \<noteq> ''exit''"
    and rest: "\<forall>u\<in>set rest. toLocaleLowerCase u \<noteq> ''exit''" by simp_all
  from Cons.IH [OF rest, of ?st'] obtain st'' zs where
    run: "main_loop create rest ?st' = (Pending, st'')" and
    mem: "chatMemory st'' = chatMemory ?st' @ zs" and
    roles: "map role zs = alternation (length rest)" by blast
  have "main_loop create (userInput # rest) st = (Pending, st'')"
    using ne c run by simp
  moreover have "chatMemory st'' = chatMemory st @
      (role_content (Val ''user'') (Val userInput) # role_content (msg_role m) (msg_content m) # zs)"
    by (simp add: mem)
  moreover have "map role (role_content (Val ''user'') (Val userInput) #
      role_content (msg_role m) (msg_content m) # zs) = alternation (length (userInput # rest))"
    by (simp add: roles m role_content_def)
  ultimately show ?case by blast
qed

text \<open>
  Claim C1. After \<open>N\<close> lines, none of them the termination token, each answered by
  a successful completion (a response carrying an assistant message), the loop is back
  at its head and the history holds exactly \<open>1 + 2N\<close> turns: the system turn, then
  user and assistant turns in alternation.
\<close>

theorem C1_history_shape:
  assumes "\<forall>u\<in>set inputs. toLocaleLowerCase u \<noteq> ''exit''"
    and "\<forall>req. \<exists>r. create req = Inr r \<and> assistant_reply r"
  shows "\<exists>st. main create inputs initial = (Pending, st) \<and>
           length (chatMemory st) = 1 + 2 * length inputs \<and>
           map role (chatMemory st) = Val ''system'' # alternation (length inputs)"
proof -
  let ?st0 = "console_log ''Chat bot started. Type 'exit' to end the conversation.\<newline>'' initial"
  from main_loop_alternates [OF assms, of ?st0] obtain st zs where
    run: "main_loop create inputs ?st0 = (Pending, st)" and
    mem: "chatMemory st = chatMemory ?st0 @ zs" and
    roles: "map role zs = alternation (length inputs)" by blast
  have len: "length zs = 2 * length inputs"
    using roles length_alternation [of "length inputs"] by (metis length_map)
  have "chatMemory ?st0 = [role_content (Val ''system'') (Val system_prompt)]"
    by (simp add: initial_def)
  with mem roles len have "length (chatMemory st) = 1 + 2 * length inputs"
    and "map role (chatMemory st) = Val ''system'' # alternation (length inputs)"
    by (simp_all add: role_content_def)
  with run show ?thesis by (simp add: main_def)
qed

theorem C1_history_shape_witness:
  "toLocaleLowerCase ''ping'' \<noteq> ''exit'' \<and> toLocaleLowerCase ''Hello'' \<noteq> ''exit'' \<and>
   (\<forall>req. \<exists>r. replying (with_message pong) req = Inr r \<and> assistant_reply r) \<and>
   (\<exists>st. main (replying (with_message pong)) [''ping'', ''Hello''] initial = (Pending, st) \<and>
      length (chatMemory st) = 5 \<and>
      map role (chatMemory st) =
        [Val ''system'', Val ''user'', Val ''assistant'', Val ''user'', Val ''assistant''])"
proof -
  have ne: "toLocaleLowerCase ''ping'' \<noteq> ''exit''" "toLocaleLowerCase ''Hello'' \<noteq> ''exit''"
    by code_simp+
  then have h1: "\<forall>u\<in>set [''ping'', ''Hello'']. toLocaleLowerCase u \<noteq> ''exit''"
    by simp
  have h2: "\<forall>req. \<exists>r. replying (with_message pong) req = Inr r \<and> assistant_reply r"
    by (simp add: replying_def with_message_def pong_def assistant_reply_def response_message_def)
  have "alternation (length [''ping'', ''Hello'']) =
      [Val ''user'', Val ''assistant'', Val ''user'', Val ''assistant'']"
    by (simp add: numeral_2_eq_2)
  with C1_history_shape [OF h1 h2] ne h2 show ?thesis by simp
qed

text \<open>
  Claim C2. A line whose lowercase form is \<open>exit\<close>, read at the head of the loop,
  ends the loop: the promise of \<open>main\<close> is fulfilled, no completion call is issued
  and no turn is appended, whatever lines follow.
\<close>

theorem C2_exit_token:
  assumes "toLocaleLowerCase userInput = ''exit''"
  shows "\<exists>st'. main_loop create (userInput # rest) st = (Fulfilled, st') \<and>
           requests st' = requests st \<and> chatMemory st' = chatMemory st"
  using assms by simp

theorem C2_exit_token_witness:
  "toLocaleLowerCase ''ExIt'' = ''exit'' \<and>
   (\<exists>st'. main_loop (replying (with_message pong)) [''ExIt'', ''ping''] initial = (Fulfilled, st') \<and>
      requests st' = requests initial \<and> chatMemory st' = chatMemory initial)"
proof -
  have h: "toLocaleLowerCase ''ExIt'' = ''exit''" by code_simp
  from C2_exit_token [OF h, of "replying (with_message pong)" "[''ping'']" initial] h
  show ?thesis by simp
qed

subsection \<open>Evaluating runs\<close>

lemma main_loop_step:
  "toLocaleLowerCase userInput \<noteq> ''exit'' \<Longrightarrow>
   main_loop create (userInput # rest) st =
     (case chatCompletion create
             (push (role_content (Val ''user'') (Val userInput))
                (console_log ''Enter your message : '' st)) of
        (Inl e, st') \<Rightarrow> (Rejected e, st')
      | (Inr u, st') \<Rightarrow> main_loop create rest st')"
  by (simp add: Let_def)

lemma response_message_with_message [simp]: "response_message (with_message m) = Inr m"
  by (simp add: response_message_def with_message_def)

lemma chatCompletion_replying:
  "chatCompletion (replying (with_message m)) st =
     (Inr (),
      console_log (''Assistant: '' @ show_js (msg_role m) @ '', '' @ show_js (msg_content m))
        (push (role_content (msg_role m) (msg_content m)) (called (chat_request st) st)))"
  by (simp add: chatCompletion_eq replying_def)

lemma pong_fields [simp]: "msg_role pong = Val ''assistant''" "msg_content pong = Val ''pong''"
  by (simp_all add: pong_def)

lemma chatMemory_initial [simp]:
  "chatMemory initial = [role_content (Val ''system'') (Val system_prompt)]"
  "requests initial = []" "stderr initial = []"
  by (simp_all add: initial_def)

lemma main_loop_replies:
  "\<forall>i. length (chatMemory st) + 2 * i + 1 < length (chatMemory (snd (main_loop create inputs st))) \<longrightarrow>
     (\<exists>response m.
        create \<lparr>model = ''openai/gpt-oss-20b'',
                messages = take (length (chatMemory st) + 2 * i + 1)
                             (chatMemory (snd (main_loop create inputs st)))\<rparr> = Inr response \<and>
        response_message response = Inr m \<and>
        chatMemory (snd (main_loop create inputs st)) ! (length (chatMemory st) + 2 * i + 1) =
          role_content (msg_role m) (msg_content m))"
proof (induction inputs arbitrary: st)
  case Nil
  show ?case by simp
next
  case (Cons userInput rest)
  let ?s = "push (role_content (Val ''user'') (Val userInput)) (console_log ''Enter your message : '' st)"
  let ?n = "length (chatMemory st)"
  have req: "chat_request ?s = \<lparr>model = ''openai/gpt-oss-20b'', messages = chatMemory ?s\<rparr>"
    by (simp add: chat_request_def)
  show ?case
  proof (cases "toLocaleLowerCase userInput = ''exit''")
    case True
    then show ?thesis by simp
  next
    case False
    obtain res st' where c: "chatCompletion create ?s = (res, st')"
      by (cases "chatCompletion create ?s")
    show ?thesis
    proof (cases res)
      case (Inl e)
      with c have "st' = called (chat_request ?s) ?s" by (simp add: chatCompletion_Inl)
      moreover have "main_loop create (userInput # rest) st = (Rejected e, st')"
        using False c Inl by simp
      ultimately show ?thesis by simp
    next
      case (Inr u)
      let ?fin = "snd (main_loop create rest st')"
      have fin: "snd (main_loop create (userInput # rest) st) = ?fin"
        using False c Inr by simp
      from c Inr have "chatCompletion create ?s = (Inr u, st')" by simp
      from chatCompletion_Inr [OF this] obtain response m where
        cr: "create (chat_request ?s) = Inr response" and
        rm: "response_message response = Inr m" and
        mem: "chatMemory st' = chatMemory ?s @ [role_content (msg_role m) (msg_content m)]"
        by blast
      have "prefix (chatMemory st') (chatMemory ?fin)" by (rule main_loop_prefix)
      then obtain zs where zs: "chatMemory ?fin = chatMemory st' @ zs"
        by (auto simp: prefix_def)
      have len: "length (chatMemory st') = ?n + 2" by (simp add: mem)
      have first: "take (?n + 1) (chatMemory ?fin) = chatMemory ?s"
        by (simp add: zs mem)
      have nth: "chatMemory ?fin ! (?n + 1) = role_content (msg_role m) (msg_content m)"
        by (simp add: zs mem nth_append)
      show ?thesis
        unfolding fin
      proof (intro allI impI)
        fix i
        assume i: "?n + 2 * i + 1 < length (chatMemory ?fin)"
        show "\<exists>response m.
          create \<lparr>model = ''openai/gpt-oss-20b'',
                  messages = take (?n + 2 * i + 1) (chatMemory ?fin)\<rparr> = Inr response \<and>
          response_message response = Inr m \<and>
          chatMemory ?fin ! (?n + 2 * i + 1) = role_content (msg_role m) (msg_content m)"
        proof (cases i)
          case 0
          with cr rm nth first req show ?thesis by simp
        next
          case (Suc j)
          then have eq: "?n + 2 * i + 1 = length (chatMemory st') + 2 * j + 1"
            by (simp add: len)
          with i have "length (chatMemory st') + 2 * j + 1 < length (chatMemory ?fin)" by simp
          with Cons.IH [of st'] show ?thesis unfolding eq by blast
        qed
      qed
    qed
  qed
qed

lemma listing_fields [simp]:
  "chatCompletion listing st =
     (Inr (),
      console_log (''Assistant: assistant, '' @ concat (map (\<lambda>t. show_js (role t) @ '' '') (chatMemory st)))
        (push (role_content (Val ''assistant'')
                 (Val (concat (map (\<lambda>t. show_js (role t) @ '' '') (chatMemory st)))))
           (called (chat_request st) st)))"
  by (simp add: chatCompletion_eq listing_def)

text \<open>
  Claim C3. The outcome of \<open>chatCompletion\<close> is the outcome of the client on the
  request whose messages are the whole history of that moment, in order: the client's
  rejection, the failure to read a message out of its response, or the turn built
  from that message. Over a run of the program, the reply stored at position
  \<open>2i + 2\<close> of the history is the one the client gave to the first \<open>2i + 2\<close>
  turns: the system turn, the \<open>i\<close> earlier exchanges and the user turn just
  appended, none dropped, moved or changed; the record of the calls agrees.
\<close>

theorem C3_full_history_sent:
  "chatCompletion create st =
     (case create \<lparr>model = ''openai/gpt-oss-20b'', messages = chatMemory st\<rparr> of
        Inl e \<Rightarrow>
          (Inl e, st\<lparr>requests := requests st @
                     [\<lparr>model = ''openai/gpt-oss-20b'', messages = chatMemory st\<rparr>]\<rparr>)
      | Inr response \<Rightarrow>
          (case response_message response of
             Inl e \<Rightarrow>
               (Inl e, st\<lparr>requests := requests st @
                          [\<lparr>model = ''openai/gpt-oss-20b'', messages = chatMemory st\<rparr>]\<rparr>)
           | Inr m \<Rightarrow>
               (Inr (),
                st\<lparr>requests := requests st @
                     [\<lparr>model = ''openai/gpt-oss-20b'', messages = chatMemory st\<rparr>],
                   chatMemory := chatMemory st @
                     [\<lparr>role = msg_role m, content = msg_content m,
                       tool_calls = Undefined, tool_call_id = Undefined\<rparr>],
                   stdout := stdout st @
                     [''Assistant: '' @ show_js (msg_role m) @ '', '' @ show_js (msg_content m)]\<rparr>))) \<and>
   (\<forall>i. 2 * i + 2 < length (chatMemory (snd (main create inputs initial))) \<longrightarrow>
      (\<exists>response m.
         create \<lparr>model = ''openai/gpt-oss-20b'',
                 messages = take (2 * i + 2) (chatMemory (snd (main create inputs initial)))\<rparr> =
           Inr response \<and>
         response_message response = Inr m \<and>
         chatMemory (snd (main create inputs initial)) ! (2 * i + 2) =
           \<lparr>role = msg_role m, content = msg_content m,
            tool_calls = Undefined, tool_call_id = Undefined\<rparr>)) \<and>
   (\<forall>i<length (requests (snd (main create inputs initial))).
      messages (requests (snd (main create inputs initial)) ! i) =
        take (2 * i + 2) (chatMemory (snd (main create inputs initial))))"
proof (intro conjI)
  show "chatCompletion create st =
     (case create \<lparr>model = ''openai/gpt-oss-20b'', messages = chatMemory st\<rparr> of
        Inl e \<Rightarrow>
          (Inl e, st\<lparr>requests := requests st @
                     [\<lparr>model = ''openai/gpt-oss-20b'', messages = chatMemory st\<rparr>]\<rparr>)
      | Inr response \<Rightarrow>
          (case response_message response of
             Inl e \<Rightarrow>
               (Inl e, st\<lparr>requests := requests st @
                          [\<lparr>model = ''openai/gpt-oss-20b'', messages = chatMemory st\<rparr>]\<rparr>)
           | Inr m \<Rightarrow>
               (Inr (),
                st\<lparr>requests := requests st @
                     [\<lparr>model = ''openai/gpt-oss-20b'', messages = chatMemory st\<rparr>],
                   chatMemory := chatMemory st @
                     [\<lparr>role = msg_role m, content = msg_content m,
                       tool_calls = Undefined, tool_call_id = Undefined\<rparr>],
                   stdout := stdout st @
                     [''Assistant: '' @ show_js (msg_role m) @ '', '' @ show_js (msg_content m)]\<rparr>)))"
    by (simp add: chatCompletion_eq chat_request_def called_def push_def console_log_def
        role_content_def split: sum.splits)
next
  let ?st0 = "console_log ''Chat bot started. Type 'exit' to end the conversation.\<newline>'' initial"
  let ?fin = "snd (main_loop create inputs ?st0)"
  have fin: "snd (main create inputs initial) = ?fin" by (simp add: main_def)
  have one: "length (chatMemory ?st0) = 1" by simp
  show "\<forall>i. 2 * i + 2 < length (chatMemory (snd (main create inputs initial))) \<longrightarrow>
      (\<exists>response m.
         create \<lparr>model = ''openai/gpt-oss-20b'',
                 messages = take (2 * i + 2) (chatMemory (snd (main create inputs initial)))\<rparr> =
           Inr response \<and>
         response_message response = Inr m \<and>
         chatMemory (snd (main create inputs initial)) ! (2 * i + 2) =
           \<lparr>role = msg_role m, content = msg_content m,
            tool_calls = Undefined, tool_call_id = Undefined\<rparr>)"
    unfolding fin
  proof (intro allI impI)
    fix i
    assume "2 * i + 2 < length (chatMemory ?fin)"
    then have "length (chatMemory ?st0) + 2 * i + 1 < length (chatMemory ?fin)"
      unfolding one by simp
    with main_loop_replies [of ?st0 create inputs] obtain response m where
      "create \<lparr>model = ''openai/gpt-oss-20b'',
                messages = take (length (chatMemory ?st0) + 2 * i + 1) (chatMemory ?fin)\<rparr> = Inr response"
      "response_message response = Inr m"
      "chatMemory ?fin ! (length (chatMemory ?st0) + 2 * i + 1) = role_content (msg_role m) (msg_content m)"
      by blast
    moreover have "length (chatMemory ?st0) + 2 * i + 1 = 2 * i + 2" unfolding one by simp
    ultimately show "\<exists>response m.
         create \<lparr>model = ''openai/gpt-oss-20b'', messages = take (2 * i + 2) (chatMemory ?fin)\<rparr> =
           Inr response \<and>
         response_message response = Inr m \<and>
         chatMemory ?fin ! (2 * i + 2) =
           \<lparr>role = msg_role m, content = msg_content m,
            tool_calls = Undefined, tool_call_id = Undefined\<rparr>"
      by (auto simp add: role_content_def)
  qed
  from main_loop_requests [of create inputs ?st0] obtain news where
    n1: "requests ?fin = requests ?st0 @ news" and
    n2: "\<forall>i<length news. news ! i =
        \<lparr>model = ''openai/gpt-oss-20b'',
         messages = take (length (chatMemory ?st0) + 2 * i + 1) (chatMemory ?fin)\<rparr>"
    by blast
  have "requests ?st0 = []" by simp
  with n1 n2 one have "\<forall>i<length (requests ?fin).
      messages (requests ?fin ! i) = take (2 * i + 2) (chatMemory ?fin)"
    by simp
  then show "\<forall>i<length (requests (snd (main create inputs initial))).
      messages (requests (snd (main create inputs initial)) ! i) =
        take (2 * i + 2) (chatMemory (snd (main create inputs initial)))"
    unfolding fin .
qed


theorem C3_full_history_sent_witness:
  "(2::nat) * 1 + 2 < length (chatMemory (snd (main listing [''ping'', ''Hello''] initial))) \<and>
   (1::nat) < length (requests (snd (main listing [''ping'', ''Hello''] initial))) \<and>
   listing \<lparr>model = ''openai/gpt-oss-20b'',
            messages = [role_content (Val ''system'') (Val system_prompt),
                        role_content (Val ''user'') (Val ''ping''),
                        role_content (Val ''assistant'') (Val ''system user ''),
                        role_content (Val ''user'') (Val ''Hello'')]\<rparr> =
     Inr (with_message \<lparr>msg_role = Val ''assistant'',
                        msg_content = Val ''system user assistant user '',
                        msg_refusal = Null, msg_tool_calls = Undefined\<rparr>) \<and>
   chatMemory (snd (main listing [''ping'', ''Hello''] initial)) ! 4 =
     role_content (Val ''assistant'') (Val ''system user assistant user '') \<and>
   messages (requests (snd (main listing [''ping'', ''Hello''] initial)) ! 1) =
     [role_content (Val ''system'') (Val system_prompt),
      role_content (Val ''user'') (Val ''ping''),
      role_content (Val ''assistant'') (Val ''system user ''),
      role_content (Val ''user'') (Val ''Hello'')]"
proof -
  let ?run = "main listing [''ping'', ''Hello''] initial"
  let ?sent = "[role_content (Val ''system'') (Val system_prompt),
      role_content (Val ''user'') (Val ''ping''),
      role_content (Val ''assistant'') (Val ''system user ''),
      role_content (Val ''user'') (Val ''Hello'')]"
  have ne: "toLocaleLowerCase ''ping'' \<noteq> ''exit''" "toLocaleLowerCase ''Hello'' \<noteq> ''exit''"
    by code_simp+
  have mem: "chatMemory (snd ?run) =
      ?sent @ [role_content (Val ''assistant'') (Val ''system user assistant user '')]"
    by (simp add: main_def Let_def ne role_content_def)
  have len: "length (requests (snd ?run)) = 2"
    by (simp add: main_def Let_def ne)
  have h1: "(2::nat) * 1 + 2 < length (chatMemory (snd ?run))" by (simp add: mem)
  have h2: "(1::nat) < length (requests (snd ?run))" by (simp add: len)
  have tk: "take (2 * 1 + 2) (chatMemory (snd ?run)) = ?sent" by (simp add: mem)
  note C3 = C3_full_history_sent [of listing initial "[''ping'', ''Hello'']"]
  from C3 h1 obtain response m where
    cr: "listing \<lparr>model = ''openai/gpt-oss-20b'',
                   messages = take (2 * 1 + 2) (chatMemory (snd ?run))\<rparr> = Inr response" and
    rm: "response_message response = Inr m" and
    nth: "chatMemory (snd ?run) ! (2 * 1 + 2) =
           \<lparr>role = msg_role m, content = msg_content m,
            tool_calls = Undefined, tool_call_id = Undefined\<rparr>"
    by blast
  have lst: "listing \<lparr>model = ''openai/gpt-oss-20b'', messages = ?sent\<rparr> =
     Inr (with_message \<lparr>msg_role = Val ''assistant'',
                        msg_content = Val ''system user assistant user '',
                        msg_refusal = Null, msg_tool_calls = Undefined\<rparr>)"
    by (simp add: listing_def role_content_def)
  from cr rm have "m = \<lparr>msg_role = Val ''assistant'',
                        msg_content = Val ''system user assistant user '',
                        msg_refusal = Null, msg_tool_calls = Undefined\<rparr>"
    unfolding tk lst by auto
  with nth have four: "chatMemory (snd ?run) ! 4 =
      role_content (Val ''assistant'') (Val ''system user assistant user '')"
    by (simp add: role_content_def)
  from C3 h2 have "messages (requests (snd ?run) ! 1) = take (2 * 1 + 2) (chatMemory (snd ?run))"
    by blast
  with tk have "messages (requests (snd ?run) ! 1) = ?sent" by simp
  with h1 h2 lst four show ?thesis by simp
qed

text \<open>
  Claim C4. \<open>chatCompletion\<close> leaves the history as it is or adds one turn at its
  end, and the push of the loop adds one turn at its end; the history at the start of
  a run of the loop is a prefix of the history at its end, the history after some
  lines is a prefix of the history after more lines, and the history of every run
  starts with the system turn created at startup.
\<close>

theorem C4_append_only:
  "(chatMemory (snd (chatCompletion create st)) = chatMemory st \<or>
    (\<exists>t. chatMemory (snd (chatCompletion create st)) = chatMemory st @ [t])) \<and>
   chatMemory (push t st) = chatMemory st @ [t] \<and>
   prefix (chatMemory st) (chatMemory (snd (main_loop create inputs st))) \<and>
   prefix (chatMemory (snd (main create inputs initial)))
     (chatMemory (snd (main create (inputs @ later) initial))) \<and>
   prefix [\<lparr>role = Val ''system'', content = Val system_prompt,
            tool_calls = Undefined, tool_call_id = Undefined\<rparr>]
     (chatMemory (snd (main create inputs initial)))"
proof (intro conjI)
  show "chatMemory (snd (chatCompletion create st)) = chatMemory st \<or>
    (\<exists>t. chatMemory (snd (chatCompletion create st)) = chatMemory st @ [t])"
    by (rule chatCompletion_memory)
  show "chatMemory (push t st) = chatMemory st @ [t]" by simp
  show "prefix (chatMemory st) (chatMemory (snd (main_loop create inputs st)))"
    by (rule main_loop_prefix)
  let ?st0 = "console_log ''Chat bot started. Type 'exit' to end the conversation.\<newline>'' initial"
  show "prefix (chatMemory (snd (main create inputs initial)))
     (chatMemory (snd (main create (inputs @ later) initial)))"
  proof (cases "main_loop create inputs ?st0")
    case (Pair p st')
    then show ?thesis
      using main_loop_prefix [of st' create later]
      by (cases p) (simp_all add: main_def main_loop_append)
  qed
  have "prefix (chatMemory ?st0) (chatMemory (snd (main_loop create inputs ?st0)))"
    by (rule main_loop_prefix)
  then show "prefix [\<lparr>role = Val ''system'', content = Val system_prompt,
            tool_calls = Undefined, tool_call_id = Undefined\<rparr>]
     (chatMemory (snd (main create inputs initial)))"
    by (simp add: main_def initial_def role_content_def)
qed

subsection \<open>Failures\<close>

lemma chat_program_rejected:
  "\<not> falsy key \<Longrightarrow> main create inputs initial = (Rejected e, st) \<Longrightarrow>
   chat_program key create inputs = (Exit 1, console_error ''Unexpected error in chat bot:'' e st)"
  by (simp add: chat_program_def)

lemma chatCompletion_fails:
  assumes "create (chat_request st) = Inl e \<or>
           (\<exists>r. create (chat_request st) = Inr r \<and> response_message r = Inl e)"
  shows "chatCompletion create st = (Inl e, called (chat_request st) st)"
  using assms by (auto simp add: chatCompletion_eq)

text \<open>
  Claim C5. The loop has taken the lines \<open>earlier\<close> and is at its head; the next
  line is not the termination token, and the completion call made for it fails: the
  client rejects, or answers with a payload out of which no message can be read.
  Then the process ends with status 1 after a diagnostic on the error stream, and the
  history is the one that was sent in the failed call: the turns before it and the
  user turn just appended, with no assistant turn.
\<close>

theorem C5_failed_call:
  assumes key: "\<not> falsy key"
    and run: "main create earlier initial = (Pending, st)"
    and ne: "toLocaleLowerCase userInput \<noteq> ''exit''"
    and fail: "create \<lparr>model = ''openai/gpt-oss-20b'',
                       messages = chatMemory st @ [role_content (Val ''user'') (Val userInput)]\<rparr> = Inl e \<or>
               (\<exists>r. create \<lparr>model = ''openai/gpt-oss-20b'',
                       messages = chatMemory st @ [role_content (Val ''user'') (Val userInput)]\<rparr> = Inr r \<and>
                    response_message r = Inl e)"
  shows "\<exists>st'. chat_program key create (earlier @ userInput # rest) = (Exit 1, st') \<and>
           chatMemory st' = chatMemory st @ [role_content (Val ''user'') (Val userInput)] \<and>
           messages (last (requests st')) = chatMemory st' \<and>
           stderr st' = stderr st @ [Console ''Unexpected error in chat bot:'' e]"
proof -
  let ?s = "push (role_content (Val ''user'') (Val userInput)) (console_log ''Enter your message : '' st)"
  have req: "chat_request ?s = \<lparr>model = ''openai/gpt-oss-20b'',
      messages = chatMemory st @ [role_content (Val ''user'') (Val userInput)]\<rparr>"
    by (simp add: chat_request_def)
  have c: "chatCompletion create ?s = (Inl e, called (chat_request ?s) ?s)"
    by (rule chatCompletion_fails) (use fail req in simp)
  have "main_loop create (userInput # rest) st = (Rejected e, called (chat_request ?s) ?s)"
    using ne c by (simp add: main_loop_step)
  with run have "main create (earlier @ userInput # rest) initial =
      (Rejected e, called (chat_request ?s) ?s)"
    by (simp add: main_def main_loop_append)
  from chat_program_rejected [OF key this]
  have "chat_program key create (earlier @ userInput # rest) =
      (Exit 1, console_error ''Unexpected error in chat bot:'' e (called (chat_request ?s) ?s))" .
  then show ?thesis by simp
qed

theorem C5_failed_call_witness:
  "\<not> falsy (Some ''gsk_test'') \<and>
   main (failing (APIError ''503'')) [] initial =
     (Pending, console_log ''Chat bot started. Type 'exit' to end the conversation.\<newline>'' initial) \<and>
   toLocaleLowerCase ''ping'' \<noteq> ''exit'' \<and>
   failing (APIError ''503'')
     \<lparr>model = ''openai/gpt-oss-20b'',
      messages = [role_content (Val ''system'') (Val system_prompt),
                  role_content (Val ''user'') (Val ''ping'')]\<rparr> = Inl (APIError ''503'') \<and>
   (\<exists>st'. chat_program (Some ''gsk_test'') (failing (APIError ''503'')) [''ping'', ''Hello''] = (Exit 1, st') \<and>
      chatMemory st' =
        [role_content (Val ''system'') (Val system_prompt), role_content (Val ''user'') (Val ''ping'')] \<and>
      messages (last (requests st')) = chatMemory st' \<and>
      stderr st' = [Console ''Unexpected error in chat bot:'' (APIError ''503'')])"
proof -
  let ?st = "console_log ''Chat bot started. Type 'exit' to end the conversation.\<newline>'' initial"
  have key: "\<not> falsy (Some ''gsk_test'')" by simp
  have run: "main (failing (APIError ''503'')) [] initial = (Pending, ?st)"
    by (simp add: main_def)
  have ne: "toLocaleLowerCase ''ping'' \<noteq> ''exit''" by code_simp
  have fail: "failing (APIError ''503'') \<lparr>model = ''openai/gpt-oss-20b'',
        messages = chatMemory ?st @ [role_content (Val ''user'') (Val ''ping'')]\<rparr> = Inl (APIError ''503'') \<or>
      (\<exists>r. failing (APIError ''503'') \<lparr>model = ''openai/gpt-oss-20b'',
        messages = chatMemory ?st @ [role_content (Val ''user'') (Val ''ping'')]\<rparr> = Inr r \<and>
        response_message r = Inl (APIError ''503''))"
    by (simp add: failing_def)
  have "failing (APIError ''503'')
     \<lparr>model = ''openai/gpt-oss-20b'',
      messages = [role_content (Val ''system'') (Val system_prompt),
                  role_content (Val ''user'') (Val ''ping'')]\<rparr> = Inl (APIError ''503'')"
    by (simp add: failing_def)
  with C5_failed_call [OF key run ne fail, of "[''Hello'']"] key run ne
  show ?thesis by simp
qed

text \<open>
  Claim C6. When \<open>GROQ_API_KEY\<close> is not set (or is the empty string), the chat bot
  and the basics program both end at the check of the key with the configuration
  error, status 1: no history is created, no completion call is issued, nothing is
  read, printed or written.
\<close>

theorem C6_missing_key:
  assumes "falsy key"
  shows "chat_program key create inputs =
           (Exit 1,
            \<lparr>chatMemory = [], requests = [], stdout = [],
             stderr = [Uncaught (Error ''GROQ_API_KEY is not defined in environment variables'')]\<rparr>) \<and>
         basics_program key create fs =
           (Exit 1,
            \<lparr>b_requests = [], b_files = [], b_stdout = [],
             b_stderr = [Uncaught (Error ''GROQ_API_KEY is not defined in environment variables'')]\<rparr>)"
  using assms by (simp add: chat_program_def basics_program_def b_initial_def)

theorem C6_missing_key_witness:
  "falsy None \<and>
   chat_program None (replying (with_message pong)) [''ping''] =
     (Exit 1,
      \<lparr>chatMemory = [], requests = [], stdout = [],
       stderr = [Uncaught (Error ''GROQ_API_KEY is not defined in environment variables'')]\<rparr>) \<and>
   basics_program None (replying (with_message pong)) disk =
     (Exit 1,
      \<lparr>b_requests = [], b_files = [], b_stdout = [],
       b_stderr = [Uncaught (Error ''GROQ_API_KEY is not defined in environment variables'')]\<rparr>)"
proof -
  have h: "falsy None" by simp
  from C6_missing_key [OF h, of "replying (with_message pong)" "[''ping'']" disk] h
  show ?thesis by simp
qed

text \<open>
  The \<open>catch\<close> clause of the basics program's \<open>main\<close> returns normally, so the
  promise of \<open>main\<close> is never rejected and the handler with \<open>process.exit(1)\<close>
  at the entry point never runs.
\<close>

lemma basics_main_returns: "fst (basics_main create fs st) = Inr ()"
  by (simp add: basics_main_def split: prod.splits sum.splits)

lemma basics_exit_status:
  "\<not> falsy key \<Longrightarrow> fst (basics_program key create fs) = Exit 0"
  using basics_main_returns [of create fs b_initial]
  by (cases "basics_main create fs b_initial") (auto simp add: basics_program_def)

text \<open>
  Claim C7 says that every error ends the program with a diagnostic and a non-zero
  status, in the basics program too. The basics program run with a client that
  rejects, and run on a disk where the write fails: the diagnostic is printed, and
  the process ends with status 0.
\<close>

theorem C7_basics_exit_status:
  "basics_program (Some ''gsk_test'') (failing (APIError ''503'')) disk =
     (Exit 0,
      \<lparr>b_requests = [basics_request], b_files = [], b_stdout = [],
       b_stderr = [Console ''Error in main function:'' (APIError ''503'')]\<rparr>) \<and>
   basics_program (Some ''gsk_test'') (replying (with_message pong)) disk_full =
     (Exit 0,
      \<lparr>b_requests = [basics_request], b_files = [], b_stdout = [],
       b_stderr = [Console ''Error saving file:'' (SystemError ''ENOSPC''),
                   Console ''Error in main function:'' (SystemError ''ENOSPC'')]\<rparr>)"
  by (simp add: basics_program_def basics_main_def main_try_def saveResponseToFile_def
      failing_def replying_def disk_def disk_full_def b_initial_def b_error_def Let_def)


lemma bare_fields [simp]: "msg_role bare = Undefined" "msg_content bare = Undefined"
  by (simp_all add: bare_def)

text \<open>
  Claim C8 says that every malformed payload makes the completion fail. A response
  whose message has no role and no content is malformed, and \<open>chatCompletion\<close>
  succeeds on it: it appends a turn with both fields undefined.
\<close>

theorem C8_counterexample:
  "malformed_payload (with_message bare) \<and>
   chatCompletion (replying (with_message bare)) initial =
     (Inr (),
      console_log ''Assistant: undefined, undefined''
        (push \<lparr>role = Undefined, content = Undefined,
               tool_calls = Undefined, tool_call_id = Undefined\<rparr>
           (called (chat_request initial) initial)))"
proof
  show "malformed_payload (with_message bare)"
    by (simp add: with_message_def)
  show "chatCompletion (replying (with_message bare)) initial =
     (Inr (),
      console_log ''Assistant: undefined, undefined''
        (push \<lparr>role = Undefined, content = Undefined,
               tool_calls = Undefined, tool_call_id = Undefined\<rparr>
           (called (chat_request initial) initial)))"
    by (simp add: chatCompletion_replying role_content_def)
qed

text \<open>
  Claim C8, amended. When the client returns a response, \<open>chatCompletion\<close> fails
  exactly when the response has no first choice or the first choice has no message:
  then it throws a TypeError and leaves the history as it was. A response that
  carries a message is accepted, whatever fields the message lacks: the turn appended
  has the role and the content of the message, undefined where the message has none.
\<close>

theorem C8_missing_message_fails:
  assumes "create (chat_request st) = Inr response"
  shows "(if no_message response
          then (\<exists>p st'. chatCompletion create st = (Inl (TypeError p), st') \<and>
                  chatMemory st' = chatMemory st)
          else (\<exists>c cs m st'. choices response = Val (c # cs) \<and> message c = Val m \<and>
                  chatCompletion create st = (Inr (), st') \<and>
                  chatMemory st' =
                    chatMemory st @ [\<lparr>role = msg_role m, content = msg_content m,
                                       tool_calls = Undefined, tool_call_id = Undefined\<rparr>])) \<and>
         (\<exists>p st'. chatCompletion create st = (Inl (TypeError p), st') \<and>
            chatMemory st' = chatMemory st) = no_message response \<and>
         (fst (chatCompletion create st) = Inr ()) = (\<not> no_message response)"
proof (cases "response_message response")
  case (Inl e)
  then obtain p where "e = TypeError p" using response_message_TypeError by blast
  moreover from Inl have "no_message response"
    using response_message_no_message [of response] by simp
  ultimately show ?thesis using assms Inl by (simp add: chatCompletion_eq)
next
  case (Inr m)
  then have nm: "\<not> no_message response"
    using response_message_no_message [of response] by simp
  then obtain c cs m' where ch: "choices response = Val (c # cs)" and ms: "message c = Val m'"
    by (auto split: js.splits list.splits)
  with Inr have "m' = m" by (simp add: response_message_def)
  with ch ms have "\<exists>c cs m' st'. choices response = Val (c # cs) \<and> message c = Val m' \<and>
      chatCompletion create st = (Inr (), st') \<and>
      chatMemory st' =
        chatMemory st @ [\<lparr>role = msg_role m', content = msg_content m',
                           tool_calls = Undefined, tool_call_id = Undefined\<rparr>]"
    using assms Inr by (simp add: chatCompletion_eq role_content_def)
  with nm show ?thesis using assms Inr by (simp add: chatCompletion_eq)
qed

theorem C8_missing_message_fails_witness:
  "replying no_choices (chat_request initial) = Inr no_choices \<and>
   no_message no_choices \<and>
   (\<exists>p st'. chatCompletion (replying no_choices) initial = (Inl (TypeError p), st') \<and>
      chatMemory st' = chatMemory initial) \<and>
   fst (chatCompletion (replying no_choices) initial) \<noteq> Inr () \<and>
   replying (with_message bare) (chat_request initial) = Inr (with_message bare) \<and>
   \<not> no_message (with_message bare) \<and>
   (\<exists>st'. chatCompletion (replying (with_message bare)) initial = (Inr (), st') \<and>
      chatMemory st' =
        chatMemory initial @ [\<lparr>role = Undefined, content = Undefined,
                                tool_calls = Undefined, tool_call_id = Undefined\<rparr>])"
proof -
  have h: "replying no_choices (chat_request initial) = Inr no_choices"
    by (simp add: replying_def)
  have n: "no_message no_choices" by (simp add: no_choices_def)
  have h': "replying (with_message bare) (chat_request initial) = Inr (with_message bare)"
    by (simp add: replying_def)
  have n': "\<not> no_message (with_message bare)" by (simp add: with_message_def)
  have ch: "choices (with_message bare) =
      Val [\<lparr>message = Val bare, finish_reason = Val ''stop''\<rparr>]"
    by (simp add: with_message_def)
  from C8_missing_message_fails [of "replying no_choices" initial no_choices, OF h] n
  have a: "(\<exists>p st'. chatCompletion (replying no_choices) initial = (Inl (TypeError p), st') \<and>
      chatMemory st' = chatMemory initial) \<and>
      fst (chatCompletion (replying no_choices) initial) \<noteq> Inr ()"
    by simp
  from C8_missing_message_fails [of "replying (with_message bare)" initial "with_message bare", OF h'] n'
  have "\<exists>c cs m st'. choices (with_message bare) = Val (c # cs) \<and> message c = Val m \<and>
      chatCompletion (replying (with_message bare)) initial = (Inr (), st') \<and>
      chatMemory st' =
        chatMemory initial @ [\<lparr>role = msg_role m, content = msg_content m,
                                tool_calls = Undefined, tool_call_id = Undefined\<rparr>]"
    by simp
  then have b: "\<exists>st'. chatCompletion (replying (with_message bare)) initial = (Inr (), st') \<and>
      chatMemory st' =
        chatMemory initial @ [\<lparr>role = Undefined, content = Undefined,
                                tool_calls = Undefined, tool_call_id = Undefined\<rparr>]"
    unfolding ch by auto
  from a b h n h' n' show ?thesis by blast
qed

text \<open>
  Claim C9. Every line other than the termination token, the empty line included, is
  appended as it is as a user turn, and the client is called with the history ending
  in that turn: what the iteration does next is decided by what the client returns on
  that request. The line is neither checked nor filtered.
\<close>

theorem C9_every_input_sent:
  assumes "toLocaleLowerCase userInput \<noteq> ''exit''"
  shows "main_loop create (userInput # rest) st =
           (case create \<lparr>model = ''openai/gpt-oss-20b'',
                         messages = chatMemory st @ [\<lparr>role = Val ''user'', content = Val userInput,
                                      tool_calls = Undefined, tool_call_id = Undefined\<rparr>]\<rparr> of
              Inl e \<Rightarrow>
                (Rejected e,
                 called (chat_request (push (role_content (Val ''user'') (Val userInput))
                                          (console_log ''Enter your message : '' st)))
                   (push (role_content (Val ''user'') (Val userInput))
                      (console_log ''Enter your message : '' st)))
            | Inr response \<Rightarrow>
                (case response_message response of
                   Inl e \<Rightarrow>
                     (Rejected e,
                      called (chat_request (push (role_content (Val ''user'') (Val userInput))
                                               (console_log ''Enter your message : '' st)))
                        (push (role_content (Val ''user'') (Val userInput))
                           (console_log ''Enter your message : '' st)))
                 | Inr m \<Rightarrow>
                     main_loop create rest
                       (console_log
                          (''Assistant: '' @ show_js (msg_role m) @ '', '' @ show_js (msg_content m))
                          (push (role_content (msg_role m) (msg_content m))
                             (called (chat_request (push (role_content (Val ''user'') (Val userInput))
                                                      (console_log ''Enter your message : '' st)))
                                (push (role_content (Val ''user'') (Val userInput))
                                   (console_log ''Enter your message : '' st))))))) \<and>
         prefix (chatMemory st @ [\<lparr>role = Val ''user'', content = Val userInput,
                                    tool_calls = Undefined, tool_call_id = Undefined\<rparr>])
           (chatMemory (snd (main_loop create (userInput # rest) st))) \<and>
         prefix (requests st @
                   [\<lparr>model = ''openai/gpt-oss-20b'',
                     messages = chatMemory st @ [\<lparr>role = Val ''user'', content = Val userInput,
                                    tool_calls = Undefined, tool_call_id = Undefined\<rparr>]\<rparr>])
           (requests (snd (main_loop create (userInput # rest) st)))"
proof -
  let ?s = "push (role_content (Val ''user'') (Val userInput)) (console_log ''Enter your message : '' st)"
  let ?u = "\<lparr>role = Val ''user'', content = Val userInput,
             tool_calls = Undefined, tool_call_id = Undefined\<rparr>"
  obtain res st' where c: "chatCompletion create ?s = (res, st')"
    by (cases "chatCompletion create ?s")
  have ms: "chatMemory ?s = chatMemory st @ [?u]"
    by (simp add: role_content_def)
  have req: "chat_request ?s = \<lparr>model = ''openai/gpt-oss-20b'', messages = chatMemory st @ [?u]\<rparr>"
    by (simp add: chat_request_def role_content_def)
  have "requests st' = requests ?s @ [chat_request ?s]"
    using chatCompletion_requests [of create ?s] c by simp
  then have rq: "requests st' =
      requests st @ [\<lparr>model = ''openai/gpt-oss-20b'', messages = chatMemory st @ [?u]\<rparr>]"
    by (simp add: chat_request_def role_content_def)
  have "prefix (chatMemory ?s) (chatMemory st')"
    using chatCompletion_memory [of create ?s] c by auto
  then have mem: "prefix (chatMemory st @ [?u]) (chatMemory st')"
    unfolding ms .
  have step: "main_loop create (userInput # rest) st =
      (case chatCompletion create ?s of
         (Inl e, st') \<Rightarrow> (Rejected e, st')
       | (Inr u, st') \<Rightarrow> main_loop create rest st')"
    using assms by (rule main_loop_step)
  have call: "main_loop create (userInput # rest) st =
           (case create \<lparr>model = ''openai/gpt-oss-20b'', messages = chatMemory st @ [?u]\<rparr> of
              Inl e \<Rightarrow> (Rejected e, called (chat_request ?s) ?s)
            | Inr response \<Rightarrow>
                (case response_message response of
                   Inl e \<Rightarrow> (Rejected e, called (chat_request ?s) ?s)
                 | Inr m \<Rightarrow>
                     main_loop create rest
                       (console_log
                          (''Assistant: '' @ show_js (msg_role m) @ '', '' @ show_js (msg_content m))
                          (push (role_content (msg_role m) (msg_content m))
                             (called (chat_request ?s) ?s)))))"
    unfolding step chatCompletion_eq [of create ?s] req [symmetric]
    by (simp split: sum.splits)
  have pre: "prefix (chatMemory st @ [?u]) (chatMemory (snd (main_loop create (userInput # rest) st))) \<and>
         prefix (requests st @ [\<lparr>model = ''openai/gpt-oss-20b'', messages = chatMemory st @ [?u]\<rparr>])
           (requests (snd (main_loop create (userInput # rest) st)))"
  proof (cases res)
    case (Inl e)
    with c assms have fin: "main_loop create (userInput # rest) st = (Rejected e, st')"
      by (simp add: main_loop_step)
    show ?thesis unfolding fin using rq mem by simp
  next
    case (Inr u)
    with c assms have fin: "main_loop create (userInput # rest) st = main_loop create rest st'"
      by (simp add: main_loop_step)
    have "prefix (chatMemory st') (chatMemory (snd (main_loop create rest st')))"
      by (rule main_loop_prefix)
    with mem have "prefix (chatMemory st @ [?u]) (chatMemory (snd (main_loop create rest st')))"
      by (rule prefix_order.trans)
    moreover have "prefix (requests st') (requests (snd (main_loop create rest st')))"
      by (rule main_loop_requests_prefix)
    ultimately show ?thesis unfolding fin using rq by simp
  qed
  from call pre show ?thesis by blast
qed

theorem C9_every_input_sent_witness:
  "toLocaleLowerCase '''' \<noteq> ''exit'' \<and>
   listing \<lparr>model = ''openai/gpt-oss-20b'',
            messages = [role_content (Val ''system'') (Val system_prompt),
                        role_content (Val ''user'') (Val '''')]\<rparr> =
     Inr (with_message \<lparr>msg_role = Val ''assistant'', msg_content = Val ''system user '',
                        msg_refusal = Null, msg_tool_calls = Undefined\<rparr>) \<and>
   chatMemory (snd (main_loop listing [''''] initial)) =
     [role_content (Val ''system'') (Val system_prompt),
      role_content (Val ''user'') (Val ''''),
      role_content (Val ''assistant'') (Val ''system user '')] \<and>
   prefix [\<lparr>model = ''openai/gpt-oss-20b'',
            messages = [role_content (Val ''system'') (Val system_prompt),
                        role_content (Val ''user'') (Val '''')]\<rparr>]
     (requests (snd (main_loop listing [''''] initial)))"
proof -
  have h: "toLocaleLowerCase '''' \<noteq> ''exit''" by (simp add: toLocaleLowerCase_def)
  have lst: "listing \<lparr>model = ''openai/gpt-oss-20b'',
            messages = chatMemory initial @ [\<lparr>role = Val ''user'', content = Val '''',
                                      tool_calls = Undefined, tool_call_id = Undefined\<rparr>]\<rparr> =
     Inr (with_message \<lparr>msg_role = Val ''assistant'', msg_content = Val ''system user '',
                        msg_refusal = Null, msg_tool_calls = Undefined\<rparr>)"
    by (simp add: listing_def role_content_def)
  note C9 = C9_every_input_sent [OF h, of listing "[]" initial]
  from C9 have "main_loop listing [''''] initial =
      (Pending,
       console_log ''Assistant: assistant, system user ''
         (push (role_content (Val ''assistant'') (Val ''system user ''))
            (called (chat_request (push (role_content (Val ''user'') (Val ''''))
                                     (console_log ''Enter your message : '' initial)))
               (push (role_content (Val ''user'') (Val ''''))
                  (console_log ''Enter your message : '' initial)))))"
    unfolding lst by simp
  then have mem: "chatMemory (snd (main_loop listing [''''] initial)) =
     [role_content (Val ''system'') (Val system_prompt),
      role_content (Val ''user'') (Val ''''),
      role_content (Val ''assistant'') (Val ''system user '')]"
    by simp
  from C9 have "prefix (requests initial @
                   [\<lparr>model = ''openai/gpt-oss-20b'',
                     messages = chatMemory initial @ [\<lparr>role = Val ''user'', content = Val '''',
                                    tool_calls = Undefined, tool_call_id = Undefined\<rparr>]\<rparr>])
           (requests (snd (main_loop listing [''''] initial)))"
    by blast
  then have rq: "prefix [\<lparr>model = ''openai/gpt-oss-20b'',
            messages = [role_content (Val ''system'') (Val system_prompt),
                        role_content (Val ''user'') (Val '''')]\<rparr>]
     (requests (snd (main_loop listing [''''] initial)))"
    by (simp add: role_content_def del: main_loop.simps)
  from lst have lst': "listing \<lparr>model = ''openai/gpt-oss-20b'',
            messages = [role_content (Val ''system'') (Val system_prompt),
                        role_content (Val ''user'') (Val '''')]\<rparr> =
     Inr (with_message \<lparr>msg_role = Val ''assistant'', msg_content = Val ''system user '',
                        msg_refusal = Null, msg_tool_calls = Undefined\<rparr>)"
    by (simp add: role_content_def)
  from h lst' mem rq show ?thesis by blast
qed

lemma main_loop_list_all:
  assumes "list_all (\<lambda>t. tool_calls t = Undefined \<and> tool_call_id t = Undefined) (chatMemory st)"
  shows "list_all (\<lambda>t. tool_calls t = Undefined \<and> tool_call_id t = Undefined)
           (chatMemory (snd (main_loop create inputs st)))"
  using assms
proof (induction inputs arbitrary: st)
  case Nil
  then show ?case by simp
next
  case (Cons userInput rest)
  let ?s = "push (role_content (Val ''user'') (Val userInput)) (console_log ''Enter your message : '' st)"
  have s: "list_all (\<lambda>t. tool_calls t = Undefined \<and> tool_call_id t = Undefined) (chatMemory ?s)"
    using Cons.prems by (simp add: role_content_def)
  show ?case
  proof (cases "toLocaleLowerCase userInput = ''exit''")
    case True
    with Cons.prems show ?thesis by simp
  next
    case False
    obtain res st' where c: "chatCompletion create ?s = (res, st')"
      by (cases "chatCompletion create ?s")
    show ?thesis
    proof (cases res)
      case (Inl e)
      with c have "st' = called (chat_request ?s) ?s" by (simp add: chatCompletion_Inl)
      with False c Inl s show ?thesis by (simp add: main_loop_step)
    next
      case (Inr u)
      with c have "chatCompletion create ?s = (Inr u, st')" by simp
      from chatCompletion_Inr [OF this] obtain r c where
        "chatMemory st' = chatMemory ?s @ [role_content r c]"
        by blast
      with s have "list_all (\<lambda>t. tool_calls t = Undefined \<and> tool_call_id t = Undefined) (chatMemory st')"
        by (simp add: role_content_def)
      from Cons.IH [OF this] False c Inr show ?thesis by (simp add: main_loop_step)
    qed
  qed
qed

text \<open>
  Claim C10. On a successful completion the turn appended has the role and the
  content of the response message and nothing else: its other fields are undefined,
  whatever the message carried. In the history of every run no turn holds a tool-call
  request or a tool-call identifier.
\<close>

theorem C10_role_and_content_only:
  assumes "create (chat_request st) = Inr response"
    and "response_message response = Inr m"
  shows "(\<exists>st'. chatCompletion create st = (Inr (), st') \<and>
            chatMemory st' =
              chatMemory st @ [\<lparr>role = msg_role m, content = msg_content m,
                                 tool_calls = Undefined, tool_call_id = Undefined\<rparr>]) \<and>
         list_all (\<lambda>t. tool_calls t = Undefined \<and> tool_call_id t = Undefined)
           (chatMemory (snd (main create inputs initial)))"
proof
  show "\<exists>st'. chatCompletion create st = (Inr (), st') \<and>
            chatMemory st' =
              chatMemory st @ [\<lparr>role = msg_role m, content = msg_content m,
                                 tool_calls = Undefined, tool_call_id = Undefined\<rparr>]"
    using assms by (simp add: chatCompletion_eq role_content_def)
  show "list_all (\<lambda>t. tool_calls t = Undefined \<and> tool_call_id t = Undefined)
           (chatMemory (snd (main create inputs initial)))"
    unfolding main_def by (rule main_loop_list_all) (simp add: role_content_def)
qed

theorem C10_role_and_content_only_witness:
  "replying (with_message weather_call) (chat_request initial) = Inr (with_message weather_call) \<and>
   response_message (with_message weather_call) = Inr weather_call \<and>
   msg_tool_calls weather_call \<noteq> Undefined \<and>
   (\<exists>st'. chatCompletion (replying (with_message weather_call)) initial = (Inr (), st') \<and>
      chatMemory st' =
        [role_content (Val ''system'') (Val system_prompt),
         \<lparr>role = Val ''assistant'', content = Null,
          tool_calls = Undefined, tool_call_id = Undefined\<rparr>]) \<and>
   list_all (\<lambda>t. tool_calls t = Undefined \<and> tool_call_id t = Undefined)
     (chatMemory (snd (main (replying (with_message weather_call)) [''weather?''] initial)))"
proof -
  have h1: "replying (with_message weather_call) (chat_request initial) = Inr (with_message weather_call)"
    by (simp add: replying_def)
  have h2: "response_message (with_message weather_call) = Inr weather_call" by simp
  have f: "msg_role weather_call = Val ''assistant''" "msg_content weather_call = Null"
    "msg_tool_calls weather_call \<noteq> Undefined"
    by (simp_all add: weather_call_def)
  from C10_role_and_content_only [of "replying (with_message weather_call)" initial
      "with_message weather_call" weather_call "[''weather?'']", OF h1 h2] h1 h2 f
  show ?thesis by simp
qed

end
